theory Spec2Isabelle
  imports Complex_Main "HOL-Library.Word"
begin

section \<open>Values: messages, time points, unsigned counters and doubles\<close>

text \<open>
  The benchmark of \<^verbatim>\<open>src/example/bench.cc\<close> is embedded as state-passing functions.
  An \<^verbatim>\<open>ignition::msgs::Bytes\<close> message is its \<^verbatim>\<open>data\<close> field, a
  \<^verbatim>\<open>std::unique_ptr\<close> to one is an \<open>option\<close> (\<open>None\<close> is the null pointer), a
  \<^verbatim>\<open>uint64_t\<close> is a 64-bit word, a time point of the high resolution clock is its tick
  count (nanoseconds), and a \<^verbatim>\<open>double\<close> is a real number or one of the special values a
  division by zero produces (rounding is left out).
\<close>

type_synonym Bytes = string
type_synonym topic = string
type_synonym time_point = int
type_synonym uint64_t = "64 word"

definition memset :: "char \<Rightarrow> nat \<Rightarrow> string" where
  "memset c n = replicate n c"

datatype double = Finite real | PInf | NInf | NaN

definition fdiv :: "real \<Rightarrow> real \<Rightarrow> double" where
  "fdiv a b =
     (if b \<noteq> 0 then Finite (a / b)
      else if a = 0 then NaN else if 0 < a then PInf else NInf)"

fun times_half :: "double \<Rightarrow> double" where
  "times_half (Finite r) = Finite (r * 0.5)"
| "times_half PInf = PInf"
| "times_half NInf = NInf"
| "times_half NaN = NaN"

definition to_double :: "uint64_t \<Rightarrow> real" where
  "to_double x = real (unat x)"

text \<open>\<^verbatim>\<open>duration_cast<microseconds>\<close> truncates towards zero; \<^verbatim>\<open>count()\<close> is then
  converted to \<^verbatim>\<open>uint64_t\<close>, which wraps a negative count around.\<close>

definition microseconds :: "int \<Rightarrow> int" where
  "microseconds d = sgn d * (\<bar>d\<bar> div 1000)"

definition duration_us :: "time_point \<Rightarrow> time_point \<Rightarrow> uint64_t" where
  "duration_us tEnd tStart = word_of_int (microseconds (tEnd - tStart))"

text \<open>\<^verbatim>\<open>std::to_string\<close> on an unsigned integer: its decimal digits.\<close>

definition digit_char :: "nat \<Rightarrow> char" where
  "digit_char d = ''0123456789'' ! d"

fun to_string :: "nat \<Rightarrow> string" where
  "to_string n = (if n < 10 then [digit_char n] else to_string (n div 10) @ [digit_char (n mod 10)])"

declare to_string.simps [simp del]

text \<open>\<^verbatim>\<open>std::numeric_limits<uint64_t>::max()\<close>.\<close>

definition UINT64_MAX :: uint64_t where
  "UINT64_MAX = 18446744073709551615"


definition SIGINT :: int where
  "SIGINT = 2"

definition SIGTERM :: int where
  "SIGTERM = 15"

section \<open>The messaging substrate\<close>

text \<open>
  Modelled from the spec: the transport (\<^verbatim>\<open>ignition::transport::Node\<close> and its
  \<^verbatim>\<open>Publisher\<close>) and the protobuf serialiser are used by the source but are not part of
  it. The spec lists what they provide: publish-to-topic, subscribe-with-callback, a
  connection query and a discovery kick; the outbound message object changes owner on a
  publish and comes back through a completion callback. A node is the record of what was
  asked of it. Whether an advertisement or a subscription succeeds, what a message's
  serialised size is and what the main thread's clock reads are parameters.
\<close>

text \<open>Where a buffer is allocated: in \<^verbatim>\<open>Tester::PrepMsg\<close>, in \<^verbatim>\<open>PubTester::PrepMsg\<close>
  or in \<^verbatim>\<open>ReplyTester::LatencyCb\<close>. What follows a buffer of a given size in memory, up to
  the first zero byte, is a parameter (\<open>overrun\<close>), as the process's memory is.\<close>

datatype alloc_site = In_Tester_PrepMsg | In_PubTester_PrepMsg | In_ReplyTester_LatencyCb

record substrate =
  advertise_ok :: "topic \<Rightarrow> bool"
  subscribe_ok :: "topic \<Rightarrow> bool"
  serialized_size :: "Bytes \<Rightarrow> nat"
  now :: "nat \<Rightarrow> time_point"
  overrun :: "alloc_site \<Rightarrow> nat \<Rightarrow> string"

text \<open>The three places of the source fill a buffer \<^verbatim>\<open>new char[n]\<close> with \<open>n\<close> bytes \<open>0\<close>
  and hand it, without a terminating zero byte, to \<^verbatim>\<open>set_data(const char *)\<close>, which
  reads up to the first zero byte: the data stored is the \<open>n\<close> bytes of the buffer
  followed by the bytes that happen to follow it in memory.\<close>

definition unterminated :: "substrate \<Rightarrow> alloc_site \<Rightarrow> nat \<Rightarrow> Bytes" where
  "unterminated T site n = memset CHR ''0'' n @ overrun T site n"

record 'cb Node =
  advertised :: "topic list"
  subscriptions :: "(topic \<times> 'cb) list"
  connections :: "topic list"
  published :: "(topic \<times> Bytes option) list"
  inflight :: "Bytes option list"

definition new_Node :: "'cb Node" where
  "new_Node = \<lparr>advertised = [], subscriptions = [], connections = [], published = [],
     inflight = []\<rparr>"

text \<open>Modelled from the spec: \<^verbatim>\<open>Node::Advertise\<close>, the transport's advertisement of a
  topic. A publisher is the topic it was advertised on; \<open>None\<close> is the invalid
  publisher.\<close>

definition Advertise :: "substrate \<Rightarrow> topic \<Rightarrow> 'cb Node \<Rightarrow> topic option \<times> 'cb Node" where
  "Advertise T tp n =
     (if advertise_ok T tp then (Some tp, n\<lparr>advertised := advertised n @ [tp]\<rparr>)
      else (None, n))"

text \<open>Modelled from the spec: \<^verbatim>\<open>Node::Subscribe\<close>, subscribe-with-callback.\<close>

definition Subscribe :: "substrate \<Rightarrow> topic \<Rightarrow> 'cb \<Rightarrow> 'cb Node \<Rightarrow> bool \<times> 'cb Node" where
  "Subscribe T tp cb n =
     (if subscribe_ok T tp then (True, n\<lparr>subscriptions := subscriptions n @ [(tp, cb)]\<rparr>)
      else (False, n))"

text \<open>Modelled from the spec: \<^verbatim>\<open>Publisher::HasConnections\<close>, the connection query.\<close>

definition HasConnections :: "topic option \<Rightarrow> 'cb Node \<Rightarrow> bool" where
  "HasConnections pub n = (case pub of None \<Rightarrow> False | Some tp \<Rightarrow> tp \<in> set (connections n))"

text \<open>Modelled from the spec: \<^verbatim>\<open>Publisher::Publish\<close>, publish-to-topic, where ownership
  of the message passes to the transport. \<open>Publish pub m cb n\<close>: the message \<open>m\<close> is handed
  to the transport on the publisher's topic; with a completion callback (\<open>cb\<close>) the
  transport keeps it until the callback runs.\<close>

definition Publish :: "topic option \<Rightarrow> Bytes option \<Rightarrow> bool \<Rightarrow> 'cb Node \<Rightarrow> 'cb Node" where
  "Publish pub m cb n =
     (case pub of
        None \<Rightarrow> n
      | Some tp \<Rightarrow> n\<lparr>published := published n @ [(tp, m)],
                      inflight := (if cb then inflight n @ [m] else inflight n)\<rparr>)"

text \<open>What the other threads do while the main thread is suspended: a signal, a remote
  subscriber connecting to a topic, a message delivered on a topic (with the clock reading
  of the callback's thread), and the completion of the oldest publish in flight.\<close>

datatype event =
    Signal int
  | Connect topic
  | Deliver topic Bytes time_point
  | PublishDone

datatype error = BlockedForever | NullPointer | BadAlloc

section \<open>Tester and ReplyTester\<close>

datatype reply_cb = throughputCb nat | latencyCb nat

record Tester =
  msgSizes :: "nat list"
  msgs :: "nat \<rightharpoonup> Bytes"
  dataSizes :: "nat \<rightharpoonup> nat"
  node :: "reply_cb Node"
  throughputPub :: "topic option"
  latencyPub :: "topic option"
  sizeReceived :: nat
  console :: "string list"

definition Tester_msgSizes :: "nat list" where
  "Tester_msgSizes =
     [256, 512, 1000, 2000, 4000, 8000, 16000, 32000, 64000,
      128000, 256000, 512000, 1000000, 2000000, 4000000]"

definition Tester_PrepMsg :: "substrate \<Rightarrow> nat \<Rightarrow> Bytes \<times> nat" where
  "Tester_PrepMsg T size_arg =
     (let byteData = unterminated T In_Tester_PrepMsg size_arg
      in (byteData, serialized_size T byteData mod 2 ^ 32))"

definition Tester_ctor_step :: "substrate \<Rightarrow> nat \<Rightarrow> Tester \<Rightarrow> Tester" where
  "Tester_ctor_step T size_arg s =
     (case Tester_PrepMsg T size_arg of
        (m, dataSize) \<Rightarrow>
          s\<lparr>msgs := (msgs s)(size_arg \<mapsto> m), dataSizes := (dataSizes s)(size_arg \<mapsto> dataSize)\<rparr>)"

definition Tester_ctor :: "substrate \<Rightarrow> Tester" where
  "Tester_ctor T =
     fold (Tester_ctor_step T) Tester_msgSizes
       \<lparr>msgSizes = Tester_msgSizes, msgs = Map.empty, dataSizes = Map.empty, node = new_Node,
        throughputPub = None, latencyPub = None, sizeReceived = 0, console = []\<rparr>"

text \<open>The two lambdas \<^verbatim>\<open>ReplyTester::Start\<close> subscribes: each prints a line and stores
  the size it captured.\<close>

fun run_reply_cb :: "reply_cb \<Rightarrow> Bytes \<Rightarrow> Tester \<Rightarrow> Tester" where
  "run_reply_cb (throughputCb size_arg) m s =
     s\<lparr>console := console s @ [''Received throughput cb for size '' @ to_string size_arg],
       sizeReceived := size_arg\<rparr>"
| "run_reply_cb (latencyCb size_arg) m s =
     s\<lparr>console := console s @ [''Received latency cb for size '' @ to_string size_arg],
       sizeReceived := size_arg\<rparr>"

fun relay_deliver :: "event \<Rightarrow> Tester \<Rightarrow> Tester" where
  "relay_deliver (Deliver tp m t) s =
     (case map_of (subscriptions (node s)) tp of
        None \<Rightarrow> s
      | Some cb \<Rightarrow> run_reply_cb cb m s)"
| "relay_deliver (Connect tp) s = s\<lparr>node := (node s)\<lparr>connections := connections (node s) @ [tp]\<rparr>\<rparr>"
| "relay_deliver PublishDone s = s\<lparr>node := (node s)\<lparr>inflight := tl (inflight (node s))\<rparr>\<rparr>"
| "relay_deliver (Signal sg) s = s"

text \<open>The \<^verbatim>\<open>while (true)\<close> loop inside \<^verbatim>\<open>Start\<close>'s loop over the sizes: wait on
  \<^verbatim>\<open>conditionDataReceived\<close> until \<^verbatim>\<open>sizeReceived > 0\<close>, reset it, wait again (the
  statement after the reset is left unfinished in the source, and the condition variable
  is not declared). The predicate is looked at when the wait is entered; nothing ever
  notifies the condition variable, so the thread is not woken again and the callbacks of
  the other threads change the state behind it. The loop has no exit; the result is the
  state the events leave.\<close>

definition Start_wait_loop :: "Tester \<Rightarrow> event list \<Rightarrow> Tester" where
  "Start_wait_loop s evs =
     fold relay_deliver evs (if sizeReceived s > 0 then s\<lparr>sizeReceived := 0\<rparr> else s)"

definition throughputTopicReply :: "nat \<Rightarrow> topic" where
  "throughputTopicReply size_arg = ''/benchmark/throughput/'' @ to_string size_arg @ ''reply''"

definition latencyTopicReply :: "nat \<Rightarrow> topic" where
  "latencyTopicReply size_arg = ''/benchmark/latency/'' @ to_string size_arg @ ''reply''"

definition throughputTopicRequest :: "nat \<Rightarrow> topic" where
  "throughputTopicRequest size_arg = ''/benchmark/throughput/'' @ to_string size_arg @ ''request''"

definition latencyTopicRequest :: "nat \<Rightarrow> topic" where
  "latencyTopicRequest size_arg = ''/benchmark/latency/'' @ to_string size_arg @ ''request''"

definition relay_error :: "string \<Rightarrow> topic \<Rightarrow> Tester \<Rightarrow> Tester" where
  "relay_error what tp s = s\<lparr>console := console s @ [what @ tp @ '']'']\<rparr>"

text \<open>\<^verbatim>\<open>ReplyTester::Start\<close>. \<open>Inr\<close> is a return, \<open>Inl\<close> the state in which the call
  never returns. The body of the loop over the sizes ends in the loop without exit, so
  the sizes after the first are never reached.\<close>

fun Start_for :: "substrate \<Rightarrow> nat list \<Rightarrow> Tester \<Rightarrow> event list \<Rightarrow> (error \<times> Tester) + Tester" where
  "Start_for T [] s evs = Inr s"
| "Start_for T (size_arg # rest) s evs =
     (case Advertise T (throughputTopicReply size_arg) (node s) of
        (tpub, n1) \<Rightarrow>
      let s1 = s\<lparr>node := n1, throughputPub := tpub\<rparr> in
      if tpub = None
      then Inr (relay_error ''Error advertising topic ['' (throughputTopicReply size_arg) s1)
      else
     (case Advertise T (latencyTopicReply size_arg) (node s1) of
        (lpub, n2) \<Rightarrow>
      let s2 = s1\<lparr>node := n2, latencyPub := lpub\<rparr> in
      if lpub = None
      then Inr (relay_error ''Error advertising topic ['' (latencyTopicReply size_arg) s2)
      else
     (case Subscribe T (throughputTopicRequest size_arg) (throughputCb size_arg) (node s2) of
        (ok3, n3) \<Rightarrow>
      let s3 = s2\<lparr>node := n3\<rparr> in
      if \<not> ok3
      then Inr (relay_error ''Error subscribing to topic ['' (throughputTopicRequest size_arg) s3)
      else
     (case Subscribe T (latencyTopicRequest size_arg) (latencyCb size_arg) (node s3) of
        (ok4, n4) \<Rightarrow>
      let s4 = s3\<lparr>node := n4\<rparr> in
      if \<not> ok4
      then Inr (relay_error ''Error subscribing to topic ['' (latencyTopicRequest size_arg) s4)
      else Inl (BlockedForever, Start_wait_loop s4 evs)))))"

definition ReplyTester_Start :: "substrate \<Rightarrow> Tester \<Rightarrow> event list \<Rightarrow> (error \<times> Tester) + Tester" where
  "ReplyTester_Start T s evs = Start_for T (msgSizes s) s evs"

text \<open>The two private methods of \<^verbatim>\<open>ReplyTester\<close>; \<^verbatim>\<open>Start\<close> subscribes neither.\<close>

definition ReplyTester_ThroughputReply :: "Bytes \<Rightarrow> Tester \<Rightarrow> Tester" where
  "ReplyTester_ThroughputReply m s = s\<lparr>node := Publish (throughputPub s) (Some m) False (node s)\<rparr>"

definition ReplyTester_LatencyCb :: "substrate \<Rightarrow> Bytes \<Rightarrow> Tester \<Rightarrow> Tester" where
  "ReplyTester_LatencyCb T m s =
     (let payloadSize = 1;
          byteData = unterminated T In_ReplyTester_LatencyCb payloadSize
      in s\<lparr>node := Publish (latencyPub s) (Some byteData) True (node s)\<rparr>)"

section \<open>PubTester and the global state\<close>

datatype pub_cb = ThroughputCb | LatencyCb

text \<open>What is written to the report stream (the console or the output file): the header
  of \<^verbatim>\<open>OutputHeader\<close>, a line of column names and the rows.\<close>

datatype line =
    Header
  | ThroughputColumns
  | LatencyColumns
  | ThroughputRow int uint64_t double double
  | LatencyRow int uint64_t double double double

record PubTester =
  msgSizes :: "int list"
  msg :: "Bytes option"
  dataSize :: uint64_t
  totalBytes :: uint64_t
  msgCount :: uint64_t
  sentMsgs :: uint64_t
  node :: "pub_cb Node"
  throughputPub :: "topic option"
  latencyPub :: "topic option"
  stop :: bool
  timeEnd :: time_point
  filename :: string

text \<open>The global state of the program: the global object \<^verbatim>\<open>gPubTester\<close> (its fields
  are the fields of the record) and the flag \<^verbatim>\<open>gStop\<close>. Three more fields record what
  the run has done: the lines on the error stream, the lines on the report stream and
  how often the main thread has read the clock.\<close>

record globals = PubTester +
  gStop :: bool
  cerr :: "string list"
  out :: "line list"
  clockReads :: nat

definition PubTester_msgSizes :: "int list" where
  "PubTester_msgSizes =
     [256, 512, 1000, 2000, 4000, 8000, 16000, 32000, 64000,
      128000, 256000, 512000, 1000000, 2000000, 4000000]"

definition initial_globals :: globals where
  "initial_globals =
     \<lparr>msgSizes = PubTester_msgSizes, msg = None, dataSize = 0, totalBytes = 0, msgCount = 0,
      sentMsgs = 100, node = new_Node, throughputPub = None, latencyPub = None, stop = False,
      timeEnd = 0, filename = [], gStop = False, cerr = [], out = [], clockReads = 0\<rparr>"

definition SetOutputFilename :: "string \<Rightarrow> globals \<Rightarrow> globals" where
  "SetOutputFilename f g = g\<lparr>filename := f\<rparr>"

definition SetIterations :: "uint64_t \<Rightarrow> globals \<Rightarrow> globals" where
  "SetIterations iters g = g\<lparr>sentMsgs := iters\<rparr>"

definition Init :: "substrate \<Rightarrow> globals \<Rightarrow> globals" where
  "Init T g =
     (let g0 = g\<lparr>msg := Some []\<rparr> in
      case Advertise T ''/benchmark/throughput/request'' (node g0) of
        (tpub, n1) \<Rightarrow>
      let g1 = g0\<lparr>node := n1, throughputPub := tpub\<rparr> in
      if tpub = None
      then g1\<lparr>cerr := cerr g1 @ [''Error advertising topic /benchmark/throughput/request'']\<rparr>
      else
     (case Advertise T ''/benchmark/latency/request'' (node g1) of
        (lpub, n2) \<Rightarrow>
      let g2 = g1\<lparr>node := n2, latencyPub := lpub\<rparr> in
      if lpub = None
      then g2\<lparr>cerr := cerr g2 @ [''Error advertising topic /benchmark/latency/request'']\<rparr>
      else
     (case Subscribe T ''/benchmark/throughput/reply'' ThroughputCb (node g2) of
        (ok3, n3) \<Rightarrow>
      let g3 = g2\<lparr>node := n3\<rparr> in
      if \<not> ok3
      then g3\<lparr>cerr := cerr g3 @ [''Error subscribing to topic /benchmark/throughput/reply'']\<rparr>
      else
     (case Subscribe T ''/benchmark/latency/reply'' LatencyCb (node g3) of
        (ok4, n4) \<Rightarrow>
      let g4 = g3\<lparr>node := n4\<rparr> in
      if \<not> ok4
      then g4\<lparr>cerr := cerr g4 @ [''Error subscribing to topic /benchmark/latency/reply'']\<rparr>
      else g4))))"

definition Stop :: "globals \<Rightarrow> globals" where
  "Stop g = g\<lparr>stop := True\<rparr>"

definition signalHandler :: "int \<Rightarrow> globals \<Rightarrow> globals" where
  "signalHandler sg g = (if sg = SIGINT \<or> sg = SIGTERM then Stop (g\<lparr>gStop := True\<rparr>) else g)"

text \<open>The callbacks of \<^verbatim>\<open>PubTester\<close>; \<open>t\<close> is the clock reading taken inside.\<close>

definition PubTester_ThroughputCb :: "time_point \<Rightarrow> Bytes \<Rightarrow> globals \<Rightarrow> globals" where
  "PubTester_ThroughputCb t m g =
     (let g1 = g\<lparr>totalBytes := totalBytes g + dataSize g\<rparr>;
          g2 = g1\<lparr>msgCount := msgCount g1 + 1\<rparr>
      in if msgCount g2 \<ge> sentMsgs g2 then g2\<lparr>timeEnd := t\<rparr> else g2)"

definition PubTester_LatencyCb :: "time_point \<Rightarrow> Bytes \<Rightarrow> globals \<Rightarrow> globals" where
  "PubTester_LatencyCb t m g = g\<lparr>timeEnd := t\<rparr>"

definition OnMsgPublished :: "Bytes option \<Rightarrow> globals \<Rightarrow> globals" where
  "OnMsgPublished m g = g\<lparr>msg := m\<rparr>"

fun deliver :: "event \<Rightarrow> globals \<Rightarrow> globals" where
  "deliver (Signal sg) g = signalHandler sg g"
| "deliver (Connect tp) g = g\<lparr>node := (node g)\<lparr>connections := connections (node g) @ [tp]\<rparr>\<rparr>"
| "deliver (Deliver tp m t) g =
     (case map_of (subscriptions (node g)) tp of
        None \<Rightarrow> g
      | Some ThroughputCb \<Rightarrow> PubTester_ThroughputCb t m g
      | Some LatencyCb \<Rightarrow> PubTester_LatencyCb t m g)"
| "deliver PublishDone g =
     (case inflight (node g) of
        [] \<Rightarrow> g
      | m # ms \<Rightarrow> OnMsgPublished m (g\<lparr>node := (node g)\<lparr>inflight := ms\<rparr>\<rparr>))"

text \<open>A suspension of the main thread on a predicate over the shared state: a
  \<^verbatim>\<open>condition_variable::wait(lock, pred)\<close>, or the loop that sleeps until a subscriber is
  connected. The predicate is looked at first; while it is false the next event of the
  other threads is let in. \<open>Inl\<close> is the state in which the thread stays suspended for
  good, \<open>Inr\<close> the state in which it goes on, with the events still to come.\<close>

fun wait :: "(globals \<Rightarrow> bool) \<Rightarrow> globals \<Rightarrow> event list \<Rightarrow> globals + globals \<times> event list" where
  "wait P g [] = (if P g then Inr (g, []) else Inl g)"
| "wait P g (e # es) = (if P g then Inr (g, e # es) else wait P (deliver e g) es)"

text \<open>\<^verbatim>\<open>PubTester::PrepMsg\<close>. \<^verbatim>\<open>new char[_size]\<close> with a negative size throws, and
  \<^verbatim>\<open>msg->set_data\<close> dereferences the member \<^verbatim>\<open>msg\<close>.\<close>

definition PrepMsg :: "substrate \<Rightarrow> int \<Rightarrow> globals \<Rightarrow> error + globals" where
  "PrepMsg T size_arg g =
     (if size_arg < 0 then Inl BadAlloc
      else
        let byteData = unterminated T In_PubTester_PrepMsg (nat size_arg)
        in case msg g of
             None \<Rightarrow> Inl NullPointer
           | Some old \<Rightarrow>
               Inr (g\<lparr>msg := Some byteData,
                      dataSize := of_nat (serialized_size T byteData)\<rparr>))"

text \<open>The loop \<^verbatim>\<open>for (int i = 0; i < sentMsgs && !stop; ++i)\<close> of \<^verbatim>\<open>Throughput\<close>,
  by the number of iterations still to run (\<^verbatim>\<open>sentMsgs\<close> does not change during the
  loop; the counter is an \<^verbatim>\<open>int\<close>, so the loop is the source's up to \<open>INT_MAX\<close>
  iterations). \<^verbatim>\<open>std::move(this->msg)\<close> leaves the member null, and no callback gives the
  message back.\<close>

fun publish_loop :: "nat \<Rightarrow> globals \<Rightarrow> globals" where
  "publish_loop 0 g = g"
| "publish_loop (Suc k) g =
     (if stop g then g
      else publish_loop k (g\<lparr>node := Publish (throughputPub g) (msg g) False (node g), msg := None\<rparr>))"

text \<open>One size class of \<^verbatim>\<open>Throughput\<close>: the body of its loop over the sizes, after the
  test of \<^verbatim>\<open>stop\<close>.\<close>

definition throughput_wake :: "globals \<Rightarrow> bool" where
  "throughput_wake g = (gStop g \<or> msgCount g \<ge> sentMsgs g)"

definition throughput_row :: "int \<Rightarrow> time_point \<Rightarrow> globals \<Rightarrow> line" where
  "throughput_row testNum timeStart g =
     (let duration = duration_us (timeEnd g) timeStart;
          seconds = to_double duration * 0.000001
      in ThroughputRow testNum (dataSize g)
           (fdiv (to_double (totalBytes g) * 0.000001) seconds)
           (fdiv (to_double (msgCount g) * 0.001) seconds))"

definition Throughput_class ::
  "substrate \<Rightarrow> int \<Rightarrow> int \<Rightarrow> globals \<Rightarrow> event list \<Rightarrow> (error \<times> globals) + globals \<times> event list" where
  "Throughput_class T testNum msgSize g evs =
     (let g1 = g\<lparr>totalBytes := 0, msgCount := 0\<rparr> in
      case PrepMsg T msgSize g1 of
        Inl e \<Rightarrow> Inl (e, g1)
      | Inr g2 \<Rightarrow>
          let timeStart = now T (clockReads g2);
              g3 = g2\<lparr>clockReads := clockReads g2 + 1\<rparr>;
              g4 = publish_loop (unat (sentMsgs g3)) g3
          in (case wait throughput_wake g4 evs of
                Inl gb \<Rightarrow> Inl (BlockedForever, gb)
              | Inr (g5, evs') \<Rightarrow>
                  Inr (g5\<lparr>out := out g5 @ [throughput_row testNum timeStart g5]\<rparr>, evs')))"

fun Throughput_for ::
  "substrate \<Rightarrow> int \<Rightarrow> int list \<Rightarrow> globals \<Rightarrow> event list \<Rightarrow> (error \<times> globals) + globals \<times> event list" where
  "Throughput_for T testNum [] g evs = Inr (g, evs)"
| "Throughput_for T testNum (msgSize # rest) g evs =
     (if stop g then Inr (g, evs)
      else case Throughput_class T testNum msgSize g evs of
             Inl e \<Rightarrow> Inl e
           | Inr (g', evs') \<Rightarrow> Throughput_for T (testNum + 1) rest g' evs')"

definition throughput_connected :: "globals \<Rightarrow> bool" where
  "throughput_connected g = (HasConnections (throughputPub g) (node g) \<or> stop g)"

definition Throughput :: "substrate \<Rightarrow> globals \<Rightarrow> event list \<Rightarrow> (error \<times> globals) + globals \<times> event list" where
  "Throughput T g evs =
     (case wait throughput_connected g evs of
        Inl gb \<Rightarrow> Inl (BlockedForever, gb)
      | Inr (g1, evs1) \<Rightarrow>
          if stop g1 then Inr (g1, evs1)
          else Throughput_for T 1 (msgSizes g1)
                 (g1\<lparr>out := out g1 @ [Header, ThroughputColumns]\<rparr>) evs1)"

text \<open>The loop \<^verbatim>\<open>for (int i = 0; i < sentMsgs && !stop; ++i)\<close> of \<^verbatim>\<open>Latency\<close>, by
  the number of iterations still to run. The accumulator is the locals \<^verbatim>\<open>sum\<close>,
  \<^verbatim>\<open>minLatency\<close> and \<^verbatim>\<open>maxLatency\<close>.\<close>

definition latency_wake :: "time_point \<Rightarrow> globals \<Rightarrow> bool" where
  "latency_wake timeStart g = (gStop g \<or> timeEnd g > timeStart)"

definition msg_recycled :: "globals \<Rightarrow> bool" where
  "msg_recycled g = (msg g \<noteq> None)"

fun latency_loop ::
  "substrate \<Rightarrow> nat \<Rightarrow> globals \<Rightarrow> event list \<Rightarrow> uint64_t \<times> uint64_t \<times> uint64_t \<Rightarrow>
     (error \<times> globals) + globals \<times> event list \<times> uint64_t \<times> uint64_t \<times> uint64_t" where
  "latency_loop T 0 g evs acc = Inr (g, evs, acc)"
| "latency_loop T (Suc k) g evs (sum_us, minLatency, maxLatency) =
     (if stop g then Inr (g, evs, sum_us, minLatency, maxLatency)
      else
        let timeStart = now T (clockReads g);
            g1 = g\<lparr>clockReads := clockReads g + 1, timeEnd := timeStart\<rparr>;
            g2 = g1\<lparr>node := Publish (latencyPub g1) (msg g1) True (node g1), msg := None\<rparr>
        in case wait (latency_wake timeStart) g2 evs of
             Inl gb \<Rightarrow> Inl (BlockedForever, gb)
           | Inr (g3, evs3) \<Rightarrow>
               (case (if msg g3 = None then wait msg_recycled g3 evs3 else Inr (g3, evs3)) of
                  Inl gb \<Rightarrow> Inl (BlockedForever, gb)
                | Inr (g4, evs4) \<Rightarrow>
                    let duration = duration_us (timeEnd g4) timeStart;
                        maxLatency' = (if duration > maxLatency then duration else maxLatency);
                        minLatency' = (if duration < minLatency then duration else minLatency)
                    in latency_loop T k g4 evs4 (sum_us + duration, minLatency', maxLatency')))"

definition latency_row :: "int \<Rightarrow> globals \<Rightarrow> uint64_t \<times> uint64_t \<times> uint64_t \<Rightarrow> line" where
  "latency_row testNum g acc =
     (case acc of
        (sum_us, minLatency, maxLatency) \<Rightarrow>
          LatencyRow testNum (dataSize g)
            (times_half (fdiv (to_double sum_us) (to_double (sentMsgs g))))
            (Finite (to_double minLatency * 0.5))
            (Finite (to_double maxLatency * 0.5)))"

text \<open>The loop of \<^verbatim>\<open>Latency\<close> over the sizes. \<^verbatim>\<open>minLatency\<close> and \<^verbatim>\<open>maxLatency\<close>
  are declared before this loop, \<^verbatim>\<open>sum\<close> inside it.\<close>

fun Latency_for ::
  "substrate \<Rightarrow> int \<Rightarrow> int list \<Rightarrow> globals \<Rightarrow> event list \<Rightarrow> uint64_t \<times> uint64_t \<Rightarrow>
     (error \<times> globals) + globals \<times> event list" where
  "Latency_for T testNum [] g evs (minLatency, maxLatency) = Inr (g, evs)"
| "Latency_for T testNum (msgSize # rest) g evs (minLatency, maxLatency) =
     (if stop g then Inr (g, evs)
      else case PrepMsg T msgSize g of
             Inl e \<Rightarrow> Inl (e, g)
           | Inr g1 \<Rightarrow>
               (case latency_loop T (unat (sentMsgs g1)) g1 evs (0, minLatency, maxLatency) of
                  Inl e \<Rightarrow> Inl e
                | Inr (g2, evs2, sum_us, minLatency', maxLatency') \<Rightarrow>
                    Latency_for T (testNum + 1) rest
                      (g2\<lparr>out := out g2 @ [latency_row testNum g2 (sum_us, minLatency', maxLatency')]\<rparr>)
                      evs2 (minLatency', maxLatency')))"

definition latency_connected :: "globals \<Rightarrow> bool" where
  "latency_connected g = (HasConnections (latencyPub g) (node g) \<or> stop g)"

definition Latency :: "substrate \<Rightarrow> globals \<Rightarrow> event list \<Rightarrow> (error \<times> globals) + globals \<times> event list" where
  "Latency T g evs =
     (case wait latency_connected g evs of
        Inl gb \<Rightarrow> Inl (BlockedForever, gb)
      | Inr (g1, evs1) \<Rightarrow>
          if stop g1 then Inr (g1, evs1)
          else Latency_for T 1 (msgSizes g1)
                 (g1\<lparr>out := out g1 @ [Header, LatencyColumns]\<rparr>) evs1 (UINT64_MAX, 0))"

section \<open>main\<close>

record flags =
  FLAGS_h :: bool
  FLAGS_t :: bool
  FLAGS_l :: bool
  FLAGS_r :: bool
  FLAGS_p :: bool
  FLAGS_i :: uint64_t
  FLAGS_o :: string

datatype exit = HelpExit | Return0 | NoReturn error

text \<open>\<^verbatim>\<open>main\<close>: how the process ends, the global state then, and the local
  \<^verbatim>\<open>ReplyTester\<close> object if one was constructed. With \<^verbatim>\<open>-h\<close> the help is printed and
  the process exits inside \<^verbatim>\<open>HandleCommandLineHelpFlags\<close>.\<close>

definition run_publisher :: "substrate \<Rightarrow> flags \<Rightarrow> globals \<Rightarrow> event list \<Rightarrow> exit \<times> globals" where
  "run_publisher T fl g evs =
     (case (if FLAGS_t fl then Throughput T (Init T g) evs else Latency T (Init T g) evs) of
        Inl (e, gb) \<Rightarrow> (NoReturn e, gb)
      | Inr (g', evs') \<Rightarrow> (Return0, g'))"

definition main :: "substrate \<Rightarrow> flags \<Rightarrow> event list \<Rightarrow> exit \<times> globals \<times> Tester option" where
  "main T fl evs =
     (if FLAGS_h fl then (HelpExit, initial_globals, None)
      else
        let g = SetOutputFilename (FLAGS_o fl) (SetIterations (FLAGS_i fl) initial_globals) in
        if FLAGS_r fl then
          (let replyTester = Tester_ctor T
           in case wait gStop g evs of
                Inl gb \<Rightarrow> (NoReturn BlockedForever, gb, Some replyTester)
              | Inr (g', evs') \<Rightarrow> (Return0, g', Some replyTester))
        else if FLAGS_p fl then
          (case run_publisher T fl g evs of (x, g') \<Rightarrow> (x, g', None))
        else
          (let replyTester = Tester_ctor T
           in case run_publisher T fl g evs of (x, g') \<Rightarrow> (x, g', Some replyTester)))"

section \<open>Reading a run\<close>

text \<open>The state a run of \<^verbatim>\<open>Throughput\<close> or \<^verbatim>\<open>Latency\<close> ends in, and why it did not
  return, if it did not.\<close>

definition final_globals :: "(error \<times> globals) + globals \<times> event list \<Rightarrow> globals" where
  "final_globals r = (case r of Inl (e, g) \<Rightarrow> g | Inr (g, evs) \<Rightarrow> g)"

definition failure :: "(error \<times> globals) + globals \<times> event list \<Rightarrow> error option" where
  "failure r = (case r of Inl (e, g) \<Rightarrow> Some e | Inr (g, evs) \<Rightarrow> None)"

definition relay_state :: "(error \<times> Tester) + Tester \<Rightarrow> Tester" where
  "relay_state r = (case r of Inl (e, s) \<Rightarrow> s | Inr s \<Rightarrow> s)"

definition report :: "(error \<times> globals) + globals \<times> event list \<Rightarrow> error option \<times> line list" where
  "report r = (failure r, out (final_globals r))"

text \<open>The events of a relay that answers the \<open>k\<close>-th request of a latency run 100
  microseconds after the main thread's \<open>k\<close>-th clock reading, the transport then giving
  the message back.\<close>

definition echoed :: "nat \<Rightarrow> event list" where
  "echoed k = [Deliver ''/benchmark/latency/reply'' [] (1000000 * int k + 100000), PublishDone]"

text \<open>A substrate for the concrete runs below: every advertisement and subscription
  succeeds, serialising adds three bytes of framing, the main thread's \<open>k\<close>-th clock
  reading is \<open>k\<close> milliseconds, and a zero byte follows every buffer.\<close>

definition example_substrate :: substrate where
  "example_substrate =
     \<lparr>advertise_ok = (\<lambda>tp. True), subscribe_ok = (\<lambda>tp. True),
      serialized_size = (\<lambda>d. length d + 3), now = (\<lambda>k. 1000000 * int k),
      overrun = (\<lambda>site n. [])\<rparr>"

text \<open>The same substrate with three bytes other than zero behind every buffer.\<close>

definition overrun_substrate :: substrate where
  "overrun_substrate = example_substrate\<lparr>overrun := (\<lambda>site n. ''xyz'')\<rparr>"


text \<open>The four channel names \<^verbatim>\<open>ReplyTester::Start\<close> builds for a size, and the four
  names \<^verbatim>\<open>PubTester::Init\<close> uses.\<close>

definition size_channels :: "nat \<Rightarrow> topic list" where
  "size_channels S =
     [throughputTopicReply S, latencyTopicReply S, throughputTopicRequest S, latencyTopicRequest S]"

definition PubTester_channels :: "topic list" where
  "PubTester_channels =
     [''/benchmark/throughput/request'', ''/benchmark/latency/request'',
      ''/benchmark/throughput/reply'', ''/benchmark/latency/reply'']"

text \<open>What holds of the reply counters of \<^verbatim>\<open>Throughput\<close> while it waits for a size
  class to complete.\<close>

definition count_inv :: "globals \<Rightarrow> bool" where
  "count_inv g = (totalBytes g = msgCount g * dataSize g \<and> msgCount g \<le> sentMsgs g)"

section \<open>Evaluation\<close>

lemma length_memset: "length (memset c n) = n"
  by (simp add: memset_def)

lemma publish_loop_numeral:
  "publish_loop (numeral k) g =
     (if stop g then g
      else publish_loop (pred_numeral k)
             (g\<lparr>node := Publish (throughputPub g) (msg g) False (node g), msg := None\<rparr>))"
  by (simp add: numeral_eq_Suc)

lemma latency_loop_numeral:
  "latency_loop T (numeral n) g evs (sum_us, minLatency, maxLatency) =
     (if stop g then Inr (g, evs, sum_us, minLatency, maxLatency)
      else
        let timeStart = now T (clockReads g);
            g1 = g\<lparr>clockReads := clockReads g + 1, timeEnd := timeStart\<rparr>;
            g2 = g1\<lparr>node := Publish (latencyPub g1) (msg g1) True (node g1), msg := None\<rparr>
        in case wait (latency_wake timeStart) g2 evs of
             Inl gb \<Rightarrow> Inl (BlockedForever, gb)
           | Inr (g3, evs3) \<Rightarrow>
               (case (if msg g3 = None then wait msg_recycled g3 evs3 else Inr (g3, evs3)) of
                  Inl gb \<Rightarrow> Inl (BlockedForever, gb)
                | Inr (g4, evs4) \<Rightarrow>
                    let duration = duration_us (timeEnd g4) timeStart;
                        maxLatency' = (if duration > maxLatency then duration else maxLatency);
                        minLatency' = (if duration < minLatency then duration else minLatency)
                    in latency_loop T (pred_numeral n) g4 evs4
                         (sum_us + duration, minLatency', maxLatency')))"
  by (simp add: numeral_eq_Suc)

lemma fold_Tester_ctor_step:
  "Tester.node (fold (Tester_ctor_step T) xs s) = Tester.node s \<and>
   Tester.msgSizes (fold (Tester_ctor_step T) xs s) = Tester.msgSizes s \<and>
   Tester.throughputPub (fold (Tester_ctor_step T) xs s) = Tester.throughputPub s \<and>
   Tester.latencyPub (fold (Tester_ctor_step T) xs s) = Tester.latencyPub s \<and>
   sizeReceived (fold (Tester_ctor_step T) xs s) = sizeReceived s \<and>
   console (fold (Tester_ctor_step T) xs s) = console s"
  by (induction xs arbitrary: s) (simp_all add: Tester_ctor_step_def split: prod.splits)

lemma Tester_ctor_fields:
  "Tester.node (Tester_ctor T) = new_Node"
  "Tester.msgSizes (Tester_ctor T) = Tester_msgSizes"
  "Tester.throughputPub (Tester_ctor T) = None"
  "Tester.latencyPub (Tester_ctor T) = None"
  "sizeReceived (Tester_ctor T) = 0"
  "console (Tester_ctor T) = []"
  by (simp_all add: Tester_ctor_def fold_Tester_ctor_step)

lemmas relay_defs = ReplyTester_Start_def throughputTopicReply_def latencyTopicReply_def
  throughputTopicRequest_def latencyTopicRequest_def relay_error_def relay_state_def
  ReplyTester_LatencyCb_def ReplyTester_ThroughputReply_def digit_char_def Tester_msgSizes_def
  to_string.simps Start_wait_loop_def

lemmas substrate_defs = Advertise_def Subscribe_def HasConnections_def Publish_def new_Node_def
  example_substrate_def overrun_substrate_def unterminated_def

lemmas pub_defs = Init_def initial_globals_def SetIterations_def SetOutputFilename_def
  PubTester_msgSizes_def PrepMsg_def signalHandler_def Stop_def SIGINT_def SIGTERM_def
  PubTester_LatencyCb_def PubTester_ThroughputCb_def OnMsgPublished_def

lemmas throughput_defs = Throughput_def Throughput_class_def throughput_connected_def
  throughput_wake_def throughput_row_def

lemmas latency_defs = Latency_def latency_connected_def latency_wake_def msg_recycled_def
  latency_row_def UINT64_MAX_def

lemmas value_defs = duration_us_def microseconds_def fdiv_def to_double_def length_memset

lemmas result_defs = final_globals_def failure_def

section \<open>Events and waits\<close>

lemma deliver_fixed:
  "sentMsgs (deliver e g) = sentMsgs g"
  "dataSize (deliver e g) = dataSize g"
  "out (deliver e g) = out g"
  "clockReads (deliver e g) = clockReads g"
  by (cases e; simp add: signalHandler_def Stop_def PubTester_ThroughputCb_def
      PubTester_LatencyCb_def OnMsgPublished_def Let_def split: option.splits pub_cb.splits list.splits)+

lemma deliver_gStop_iff:
  "gStop (deliver e g) = (gStop g \<or> e = Signal SIGINT \<or> e = Signal SIGTERM)"
  by (cases e) (auto simp: signalHandler_def Stop_def PubTester_ThroughputCb_def
      PubTester_LatencyCb_def OnMsgPublished_def Let_def split: option.splits pub_cb.splits list.splits)

lemma deliver_node_requests:
  "advertised (node (deliver e g)) = advertised (node g) \<and>
   subscriptions (node (deliver e g)) = subscriptions (node g) \<and>
   published (node (deliver e g)) = published (node g)"
  by (cases e) (auto simp: signalHandler_def Stop_def PubTester_ThroughputCb_def
      PubTester_LatencyCb_def OnMsgPublished_def Let_def split: option.splits pub_cb.splits list.splits)

lemma wait_ready: "P g \<Longrightarrow> wait P g evs = Inr (g, evs)"
  by (cases evs) simp_all


lemma wait_gStop_blocks:
  "isl (wait gStop g evs) = (\<not> gStop g \<and> Signal SIGINT \<notin> set evs \<and> Signal SIGTERM \<notin> set evs)"
  by (induction evs arbitrary: g) (auto simp: deliver_gStop_iff)

lemma wait_node_requests:
  "advertised (node (case wait P g evs of Inl gb \<Rightarrow> gb | Inr (g', evs') \<Rightarrow> g')) = advertised (node g) \<and>
   subscriptions (node (case wait P g evs of Inl gb \<Rightarrow> gb | Inr (g', evs') \<Rightarrow> g')) = subscriptions (node g) \<and>
   published (node (case wait P g evs of Inl gb \<Rightarrow> gb | Inr (g', evs') \<Rightarrow> g')) = published (node g)"
  by (induction evs arbitrary: g) (simp_all add: deliver_node_requests)

section \<open>The relay object\<close>

lemma run_reply_cb_node: "Tester.node (run_reply_cb cb m s) = Tester.node s"
  by (cases cb) simp_all

lemma relay_deliver_advertised:
  "advertised (Tester.node (relay_deliver e s)) = advertised (Tester.node s)"
  by (cases e) (simp_all add: run_reply_cb_node split: option.splits)

lemma fold_relay_deliver_advertised:
  "advertised (Tester.node (fold relay_deliver evs s)) = advertised (Tester.node s)"
  by (induction evs arbitrary: s) (simp_all add: relay_deliver_advertised)

lemma Start_wait_loop_advertised:
  "advertised (Tester.node (Start_wait_loop s evs)) = advertised (Tester.node s)"
  by (simp add: Start_wait_loop_def fold_relay_deliver_advertised)

lemma Start_leaves_a_trace:
  "advertised (Tester.node (relay_state (ReplyTester_Start T (Tester_ctor T) evs))) \<noteq> [] \<or>
   console (relay_state (ReplyTester_Start T (Tester_ctor T) evs)) \<noteq> []"
  by (simp add: ReplyTester_Start_def Tester_ctor_fields Tester_msgSizes_def relay_state_def
      Advertise_def Subscribe_def relay_error_def Let_def Start_wait_loop_advertised new_Node_def)

lemma relay_deliver_subscriptions:
  "subscriptions (Tester.node (relay_deliver e s)) = subscriptions (Tester.node s)"
  by (cases e) (simp_all add: run_reply_cb_node split: option.splits)

lemma fold_relay_deliver_subscriptions:
  "subscriptions (Tester.node (fold relay_deliver evs s)) = subscriptions (Tester.node s)"
  by (induction evs arbitrary: s) (simp_all add: relay_deliver_subscriptions)

lemma Start_wait_loop_subscriptions:
  "subscriptions (Tester.node (Start_wait_loop s evs)) = subscriptions (Tester.node s)"
  by (simp add: Start_wait_loop_def fold_relay_deliver_subscriptions)

section \<open>Channel names\<close>

lemma digit_char_inj:
  assumes "a < 10" and "b < 10" and "digit_char a = digit_char b"
  shows "a = b"
proof -
  have d: "distinct ''0123456789''" by simp
  have l: "length ''0123456789'' = 10" by simp
  from assms show ?thesis
    unfolding digit_char_def using nth_eq_iff_index_eq [OF d, of a b] l by simp
qed

lemma to_string_nonempty: "to_string n \<noteq> []"
  by (subst to_string.simps) simp

lemma to_string_long: "10 \<le> n \<Longrightarrow> 2 \<le> length (to_string n)"
proof -
  assume "10 \<le> n"
  then have "to_string n = to_string (n div 10) @ [digit_char (n mod 10)]"
    by (subst to_string.simps) simp
  moreover have "1 \<le> length (to_string (n div 10))"
    using to_string_nonempty [of "n div 10"] by (cases "to_string (n div 10)") simp_all
  ultimately show ?thesis by simp
qed

lemma to_string_inj: "to_string a = to_string b \<Longrightarrow> a = b"
proof (induction a arbitrary: b rule: to_string.induct)
  case (1 n)
  show ?case
  proof (cases "n < 10")
    case True
    then have n: "to_string n = [digit_char n]"
      by (subst to_string.simps) simp
    show ?thesis
    proof (cases "b < 10")
      case b: True
      then have "to_string b = [digit_char b]"
        by (subst to_string.simps) simp
      with n "1.prems" have "digit_char n = digit_char b" by simp
      with True b show ?thesis by (rule digit_char_inj)
    next
      case False
      then have "2 \<le> length (to_string b)" by (simp add: to_string_long)
      with n "1.prems" show ?thesis by simp
    qed
  next
    case False
    then have n: "to_string n = to_string (n div 10) @ [digit_char (n mod 10)]"
      by (subst to_string.simps) simp
    show ?thesis
    proof (cases "b < 10")
      case True
      then have "to_string b = [digit_char b]"
        by (subst to_string.simps) simp
      moreover from False have "2 \<le> length (to_string n)" by (simp add: to_string_long)
      ultimately show ?thesis using "1.prems" by simp
    next
      case b: False
      then have "to_string b = to_string (b div 10) @ [digit_char (b mod 10)]"
        by (subst to_string.simps) simp
      with n "1.prems" have e: "to_string (n div 10) = to_string (b div 10)"
        and d: "digit_char (n mod 10) = digit_char (b mod 10)"
        by simp_all
      from "1.IH" [OF False e] have "n div 10 = b div 10" .
      moreover from d have "n mod 10 = b mod 10"
        by (intro digit_char_inj) simp_all
      ultimately show ?thesis
        by (metis div_mult_mod_eq)
    qed
  qed
qed

lemma topic_inj:
  "(throughputTopicReply a = throughputTopicReply b) = (a = b)"
  "(latencyTopicReply a = latencyTopicReply b) = (a = b)"
  "(throughputTopicRequest a = throughputTopicRequest b) = (a = b)"
  "(latencyTopicRequest a = latencyTopicRequest b) = (a = b)"
  by (auto simp: throughputTopicReply_def latencyTopicReply_def throughputTopicRequest_def
      latencyTopicRequest_def dest: to_string_inj)

lemma topic_modes_differ:
  "throughputTopicReply a \<noteq> latencyTopicReply b"
  "throughputTopicReply a \<noteq> latencyTopicRequest b"
  "throughputTopicRequest a \<noteq> latencyTopicReply b"
  "throughputTopicRequest a \<noteq> latencyTopicRequest b"
  by (simp_all add: throughputTopicReply_def latencyTopicReply_def throughputTopicRequest_def
      latencyTopicRequest_def)

lemma topic_directions_differ:
  "throughputTopicRequest a \<noteq> throughputTopicReply b"
  "latencyTopicRequest a \<noteq> latencyTopicReply b"
proof -
  show "throughputTopicRequest a \<noteq> throughputTopicReply b"
  proof
    assume "throughputTopicRequest a = throughputTopicReply b"
    then have "last (to_string a @ ''request'') = last (to_string b @ ''reply'')"
      by (simp add: throughputTopicRequest_def throughputTopicReply_def)
    then show False by simp
  qed
  show "latencyTopicRequest a \<noteq> latencyTopicReply b"
  proof
    assume "latencyTopicRequest a = latencyTopicReply b"
    then have "last (to_string a @ ''request'') = last (to_string b @ ''reply'')"
      by (simp add: latencyTopicRequest_def latencyTopicReply_def)
    then show False by simp
  qed
qed

lemma unqualified_differ:
  "''/benchmark/throughput/request'' \<noteq> throughputTopicRequest a"
  "''/benchmark/latency/request'' \<noteq> latencyTopicRequest a"
  "''/benchmark/throughput/reply'' \<noteq> throughputTopicReply a"
  "''/benchmark/latency/reply'' \<noteq> latencyTopicReply a"
  using to_string_nonempty [of a]
  by (auto simp: throughputTopicReply_def latencyTopicReply_def throughputTopicRequest_def
      latencyTopicRequest_def append_eq_Cons_conv Cons_eq_append_conv)

lemma size_channels_distinct: "distinct (size_channels S)"
  using topic_modes_differ [of S S] topic_directions_differ [of S S]
  by (auto simp: size_channels_def)

lemma size_channels_disjoint:
  assumes "S \<noteq> S'"
  shows "set (size_channels S) \<inter> set (size_channels S') = {}"
  using assms topic_modes_differ [of S S'] topic_modes_differ [of S' S]
    topic_directions_differ [of S S'] topic_directions_differ [of S' S]
  by (auto simp: size_channels_def topic_inj)

lemma PubTester_channels_unqualified:
  "set PubTester_channels \<inter> set (size_channels S) = {}"
proof -
  have a: "''/benchmark/throughput/request'' \<notin> set (size_channels S)"
    using unqualified_differ(1) [of S]
    by (auto simp: size_channels_def throughputTopicReply_def latencyTopicReply_def
        throughputTopicRequest_def latencyTopicRequest_def dest: arg_cong [where f = last])
  have b: "''/benchmark/latency/request'' \<notin> set (size_channels S)"
    using unqualified_differ(2) [of S]
    by (auto simp: size_channels_def throughputTopicReply_def latencyTopicReply_def
        throughputTopicRequest_def latencyTopicRequest_def dest: arg_cong [where f = last])
  have c: "''/benchmark/throughput/reply'' \<notin> set (size_channels S)"
    using unqualified_differ(3) [of S]
    by (auto simp: size_channels_def throughputTopicReply_def latencyTopicReply_def
        throughputTopicRequest_def latencyTopicRequest_def dest: arg_cong [where f = last])
  have d: "''/benchmark/latency/reply'' \<notin> set (size_channels S)"
    using unqualified_differ(4) [of S]
    by (auto simp: size_channels_def throughputTopicReply_def latencyTopicReply_def
        throughputTopicRequest_def latencyTopicRequest_def dest: arg_cong [where f = last])
  from a b c d show ?thesis
    by (simp add: PubTester_channels_def)
qed

section \<open>The reply counters of Throughput\<close>

lemma deliver_count_inv:
  assumes "count_inv g" and "\<not> throughput_wake g"
  shows "count_inv (deliver e g)"
proof -
  from assms have lt: "msgCount g < sentMsgs g" and tb: "totalBytes g = msgCount g * dataSize g"
    by (auto simp: count_inv_def throughput_wake_def)
  from lt have le: "msgCount g + 1 \<le> sentMsgs g"
    by (rule inc_le)
  have ring: "msgCount g * dataSize g + dataSize g = (msgCount g + 1) * dataSize g"
    by (simp add: algebra_simps)
  from lt have le0: "msgCount g \<le> sentMsgs g"
    by simp
  show ?thesis
    using tb le ring le0
    by (cases e; simp add: count_inv_def signalHandler_def Stop_def PubTester_ThroughputCb_def
      PubTester_LatencyCb_def OnMsgPublished_def Let_def split: option.splits pub_cb.splits list.splits)
qed

lemma wait_throughput_wake:
  assumes "wait throughput_wake g evs = Inr (g', evs')" and "count_inv g"
  shows "count_inv g' \<and> throughput_wake g' \<and> sentMsgs g' = sentMsgs g \<and>
         dataSize g' = dataSize g \<and> out g' = out g"
  using assms
proof (induction evs arbitrary: g)
  case Nil
  then show ?case by (simp split: if_splits)
next
  case (Cons e es)
  show ?case
  proof (cases "throughput_wake g")
    case True
    with Cons.prems show ?thesis by simp
  next
    case False
    with Cons.prems have w: "wait throughput_wake (deliver e g) es = Inr (g', evs')"
      by simp
    from Cons.prems(2) False have "count_inv (deliver e g)"
      by (rule deliver_count_inv)
    from Cons.IH [OF w this] show ?thesis
      by (simp add: deliver_fixed)
  qed
qed

lemma publish_loop_fixed:
  "totalBytes (publish_loop k g) = totalBytes g \<and> msgCount (publish_loop k g) = msgCount g \<and>
   sentMsgs (publish_loop k g) = sentMsgs g \<and> dataSize (publish_loop k g) = dataSize g \<and>
   out (publish_loop k g) = out g"
  by (induction k arbitrary: g) simp_all

text \<open>With as many replies delivered as requests were sent, a size class of
  \<^verbatim>\<open>Throughput\<close> returns, and without the stop flag.\<close>

lemma publish_loop_kept:
  "subscriptions (node (publish_loop k g)) = subscriptions (node g) \<and>
   gStop (publish_loop k g) = gStop g"
  by (induction k arbitrary: g) (simp_all add: Publish_def split: option.splits)

lemma wait_replies:
  assumes "map_of (subscriptions (node g)) tp = Some ThroughputCb"
    and "\<not> gStop g"
    and "unat (msgCount g) + length ts = unat (sentMsgs g)"
  shows "\<exists>g'. wait throughput_wake g (map (Deliver tp m) ts @ rest) = Inr (g', rest) \<and> \<not> gStop g'"
  using assms
proof (induction ts arbitrary: g)
  case Nil
  then have "msgCount g = sentMsgs g"
    by (simp add: word_unat_eq_iff)
  then have "throughput_wake g"
    by (simp add: throughput_wake_def)
  with Nil.prems(2) show ?case
    by (auto simp: wait_ready)
next
  case (Cons t ts)
  from Cons.prems(3) have lt: "msgCount g < sentMsgs g"
    by (simp add: word_less_nat_alt)
  with Cons.prems(2) have nw: "\<not> throughput_wake g"
    by (simp add: throughput_wake_def)
  let ?g = "deliver (Deliver tp m t) g"
  from lt have suc: "unat (msgCount g + 1) = Suc (unat (msgCount g))"
    by unat_arith
  have g: "map_of (subscriptions (node ?g)) tp = Some ThroughputCb" "\<not> gStop ?g"
    "unat (msgCount ?g) + length ts = unat (sentMsgs ?g)"
    using Cons.prems suc by (simp_all add: PubTester_ThroughputCb_def Let_def)
  from Cons.IH [OF g] nw show ?case
    by simp
qed

lemma Throughput_class_returns:
  assumes "msg g \<noteq> None" and "\<not> gStop g" and "0 \<le> msgSize"
    and "map_of (subscriptions (node g)) tp = Some ThroughputCb"
    and "length ts = unat (sentMsgs g)"
  shows "\<exists>g'. Throughput_class T testNum msgSize g (map (Deliver tp m) ts @ rest) = Inr (g', rest) \<and>
              \<not> gStop g'"
proof -
  from assms(1) obtain old where old: "msg g = Some old" by auto
  define g3 where "g3 = g\<lparr>totalBytes := 0, msgCount := 0,
      msg := Some (unterminated T In_PubTester_PrepMsg (nat msgSize)),
      dataSize := of_nat (serialized_size T (unterminated T In_PubTester_PrepMsg (nat msgSize))),
      clockReads := clockReads g + 1\<rparr>"
  define g4 where "g4 = publish_loop (unat (sentMsgs g3)) g3"
  have g4: "map_of (subscriptions (node g4)) tp = Some ThroughputCb" "\<not> gStop g4"
    "unat (msgCount g4) + length ts = unat (sentMsgs g4)"
    using assms by (simp_all add: g4_def g3_def publish_loop_kept publish_loop_fixed)
  from wait_replies [OF g4, of m rest] obtain g5 where
    w: "wait throughput_wake g4 (map (Deliver tp m) ts @ rest) = Inr (g5, rest)" and s: "\<not> gStop g5"
    by blast
  have "Throughput_class T testNum msgSize g (map (Deliver tp m) ts @ rest) =
      Inr (g5\<lparr>out := out g5 @ [throughput_row testNum (now T (clockReads g)) g5]\<rparr>, rest)"
    using w assms(3) by (simp add: Throughput_class_def PrepMsg_def old Let_def g4_def g3_def)
  with s show ?thesis by simp
qed

section \<open>The iteration loop of Latency\<close>

lemma latency_loop_stopped: "stop g \<Longrightarrow> latency_loop T k g evs acc = Inr (g, evs, acc)"
  by (cases k; cases acc) simp_all



lemma interrupted_iteration:
  assumes "\<not> stop g" and "\<not> gStop g" and "msg g = Some m" and "inflight (node g) = []"
    and "latencyPub g = Some tp" and "sg = SIGINT \<or> sg = SIGTERM"
  shows "latency_loop T (Suc k) g (Signal sg # PublishDone # rest) (s, mn, mx) =
     Inr (g\<lparr>clockReads := clockReads g + 1, timeEnd := now T (clockReads g),
            node := (node g)\<lparr>published := published (node g) @ [(tp, Some m)], inflight := []\<rparr>,
            msg := Some m, gStop := True, stop := True\<rparr>, rest, s, 0, mx)"
  using assms
  by (auto simp: Let_def latency_wake_def msg_recycled_def Publish_def signalHandler_def Stop_def
      OnMsgPublished_def duration_us_def microseconds_def latency_loop_stopped wait_ready
      word_gt_0)

section \<open>The publish loop of Throughput\<close>

text \<open>
  C3. For every size class, \<^verbatim>\<open>Throughput\<close> with the stop flag unset publishes the payload
  prepared for that size \<open>N\<close> times. The code hands \<^verbatim>\<open>std::move(this->msg)\<close> to the
  transport with no completion callback, so after the first publish the member is null:
  with two iterations, a connected subscriber and no stop, the first publish carries the
  256-byte payload and the second carries the null pointer. The run then waits for the
  replies.
\<close>

theorem C3_second_publish_carries_null:
  "failure (Throughput example_substrate (SetIterations 2 (Init example_substrate initial_globals))
      [Connect ''/benchmark/throughput/request'']) = Some BlockedForever \<and>
   stop (final_globals (Throughput example_substrate
      (SetIterations 2 (Init example_substrate initial_globals))
      [Connect ''/benchmark/throughput/request''])) = False \<and>
   gStop (final_globals (Throughput example_substrate
      (SetIterations 2 (Init example_substrate initial_globals))
      [Connect ''/benchmark/throughput/request''])) = False \<and>
   published (node (final_globals (Throughput example_substrate
      (SetIterations 2 (Init example_substrate initial_globals))
      [Connect ''/benchmark/throughput/request'']))) =
     [(''/benchmark/throughput/request'', Some (memset CHR ''0'' 256)),
      (''/benchmark/throughput/request'', None)]"
  by (simp add: substrate_defs pub_defs throughput_defs value_defs result_defs publish_loop_numeral)

section \<open>The relay\<close>

text \<open>
  C1. Whenever the relay receives a message on a size's request channel it republishes
  the identical payload on the reply channel of the same size and mode. The callbacks
  that \<^verbatim>\<open>ReplyTester::Start\<close> subscribes only print a line and store the size: a request
  with payload \<open>AB\<close> delivered on \<^verbatim>\<open>/benchmark/latency/256request\<close> is received (the line
  is printed) and nothing is published. The method \<^verbatim>\<open>ReplyTester::LatencyCb\<close>, which no
  subscription names, answers the same request with a fresh one-byte payload \<open>0\<close>.
\<close>

theorem C1_relay_does_not_echo:
  "console (relay_state (ReplyTester_Start example_substrate (Tester_ctor example_substrate)
      [Deliver ''/benchmark/latency/256request'' ''AB'' 0])) =
     [''Received latency cb for size 256''] \<and>
   published (Tester.node (relay_state (ReplyTester_Start example_substrate
      (Tester_ctor example_substrate) [Deliver ''/benchmark/latency/256request'' ''AB'' 0]))) = [] \<and>
   published (Tester.node (ReplyTester_LatencyCb example_substrate ''AB''
      (relay_state (ReplyTester_Start example_substrate (Tester_ctor example_substrate) [])))) =
     [(''/benchmark/latency/256reply'', Some ''0'')]"
  by (simp add: relay_defs substrate_defs Tester_ctor_fields memset_def Let_def)

section \<open>Rows of the latency report\<close>

text \<open>
  C5. For every size class completed in latency mode the row is \<open>testNum\<close>, \<open>sizeBytes\<close>,
  \<open>avg\<close>, \<open>min\<close>, \<open>max\<close> with \<open>min\<close> the class's minimum duration halved. With one
  iteration per class, a round trip of 100 microseconds for the first size and of 200
  microseconds for the second, the second row reports the minimum 50, the halved duration
  of the first class, where the class's own minimum gives 100.
\<close>

theorem C5_second_row_minimum:
  "failure (Latency example_substrate (SetIterations 1 (Init example_substrate initial_globals))
     [Connect ''/benchmark/latency/request'',
      Deliver ''/benchmark/latency/reply'' [] 100000, PublishDone,
      Deliver ''/benchmark/latency/reply'' [] 1200000, PublishDone]) = Some BlockedForever \<and>
   out (final_globals (Latency example_substrate
     (SetIterations 1 (Init example_substrate initial_globals))
     [Connect ''/benchmark/latency/request'',
      Deliver ''/benchmark/latency/reply'' [] 100000, PublishDone,
      Deliver ''/benchmark/latency/reply'' [] 1200000, PublishDone])) =
     [Header, LatencyColumns,
      LatencyRow 1 259 (Finite 50) (Finite 50) (Finite 50),
      LatencyRow 2 515 (Finite 100) (Finite 50) (Finite 100)]"
  by (simp add: substrate_defs pub_defs latency_defs value_defs result_defs)

text \<open>
  C7. The aggregate statistics of a size class are reset at the start of its measurement,
  so nothing carries over from the class before. \<^verbatim>\<open>sum\<close>, \<^verbatim>\<open>totalBytes\<close> and
  \<^verbatim>\<open>msgCount\<close> are reset; \<^verbatim>\<open>minLatency\<close> and \<^verbatim>\<open>maxLatency\<close> are not. With one
  iteration per class, a round trip of 200 microseconds for the first size and of 100
  microseconds for the second, the second row reports the maximum 100, carried over from
  the first class.
\<close>

theorem C7_maximum_carries_over:
  "out (final_globals (Latency example_substrate
     (SetIterations 1 (Init example_substrate initial_globals))
     [Connect ''/benchmark/latency/request'',
      Deliver ''/benchmark/latency/reply'' [] 200000, PublishDone,
      Deliver ''/benchmark/latency/reply'' [] 1100000, PublishDone])) =
     [Header, LatencyColumns,
      LatencyRow 1 259 (Finite 100) (Finite 100) (Finite 100),
      LatencyRow 2 515 (Finite 50) (Finite 50) (Finite 100)]"
  by (simp add: substrate_defs pub_defs latency_defs value_defs result_defs)

section \<open>Suspension points and the stop flag\<close>

text \<open>The signal handler sets both flags, and three of the four suspension points go on
  at once when their flag is set.\<close>

lemma signal_sets_both_flags:
  "sg = SIGINT \<or> sg = SIGTERM \<Longrightarrow> gStop (deliver (Signal sg) g) \<and> stop (deliver (Signal sg) g)"
  by (auto simp: signalHandler_def Stop_def)

lemma stop_releases_connection_wait:
  "stop g \<Longrightarrow> wait throughput_connected g evs = Inr (g, evs)"
  "stop g \<Longrightarrow> wait latency_connected g evs = Inr (g, evs)"
  by (simp_all add: wait_ready throughput_connected_def latency_connected_def)

lemma gStop_releases_reply_wait:
  "gStop g \<Longrightarrow> wait throughput_wake g evs = Inr (g, evs)"
  "gStop g \<Longrightarrow> wait (latency_wake timeStart) g evs = Inr (g, evs)"
  by (simp_all add: wait_ready throughput_wake_def latency_wake_def)

text \<open>
  C8. Every suspension point of the measurement role has a predicate that also looks at the
  stop flag. The wait for the recycled message buffer has the predicate
  \<^verbatim>\<open>this->msg != nullptr\<close> alone: when the signal arrives while \<^verbatim>\<open>Latency\<close> waits
  for a reply and the transport has not given the buffer back, the reply wait ends and the
  buffer wait does not, with both stop flags set.
\<close>

theorem C8_buffer_wait_ignores_stop:
  "failure (Latency example_substrate (Init example_substrate initial_globals)
     [Connect ''/benchmark/latency/request'', Signal SIGINT]) = Some BlockedForever \<and>
   gStop (final_globals (Latency example_substrate (Init example_substrate initial_globals)
     [Connect ''/benchmark/latency/request'', Signal SIGINT])) \<and>
   stop (final_globals (Latency example_substrate (Init example_substrate initial_globals)
     [Connect ''/benchmark/latency/request'', Signal SIGINT])) \<and>
   msg (final_globals (Latency example_substrate (Init example_substrate initial_globals)
     [Connect ''/benchmark/latency/request'', Signal SIGINT])) = None"
  by (simp add: substrate_defs pub_defs latency_defs value_defs result_defs latency_loop_numeral)

section \<open>The sweep\<close>

text \<open>
  C10. A run of \<^verbatim>\<open>Throughput\<close> or \<^verbatim>\<open>Latency\<close> with the stop flag never set gives
  one row per size of the sweep. In \<^verbatim>\<open>Throughput\<close> the message is moved into the first
  publish and never comes back, so with one iteration, a connected subscriber and the
  reply delivered, the first row is written and \<^verbatim>\<open>PrepMsg\<close> for the second size
  dereferences the null pointer.
\<close>

theorem C10_throughput_stops_after_first_row:
  "failure (Throughput example_substrate (SetIterations 1 (Init example_substrate initial_globals))
     [Connect ''/benchmark/throughput/request'',
      Deliver ''/benchmark/throughput/reply'' [] 200000]) = Some NullPointer \<and>
   out (final_globals (Throughput example_substrate
     (SetIterations 1 (Init example_substrate initial_globals))
     [Connect ''/benchmark/throughput/request'',
      Deliver ''/benchmark/throughput/reply'' [] 200000])) =
     [Header, ThroughputColumns, ThroughputRow 1 259 (Finite (259 / 200)) (Finite 5)]"
  by (simp add: substrate_defs pub_defs throughput_defs value_defs result_defs)

text \<open>\<^verbatim>\<open>Latency\<close>, which gets the message back before it uses it again, goes through
  the whole sweep: one iteration per size, every request answered, fifteen rows in the
  order of the sizes.\<close>

lemma Latency_full_sweep:
  "report (Latency example_substrate (SetIterations 1 (Init example_substrate initial_globals))
     (Connect ''/benchmark/latency/request'' #
      concat (map echoed [0, 1, 2, 3, 4, 5, 6, 7, 8, 9, 10, 11, 12, 13, 14]))) =
     (None,
      [Header, LatencyColumns,
       LatencyRow 1 259 (Finite 50) (Finite 50) (Finite 50),
       LatencyRow 2 515 (Finite 50) (Finite 50) (Finite 50),
       LatencyRow 3 1003 (Finite 50) (Finite 50) (Finite 50),
       LatencyRow 4 2003 (Finite 50) (Finite 50) (Finite 50),
       LatencyRow 5 4003 (Finite 50) (Finite 50) (Finite 50),
       LatencyRow 6 8003 (Finite 50) (Finite 50) (Finite 50),
       LatencyRow 7 16003 (Finite 50) (Finite 50) (Finite 50),
       LatencyRow 8 32003 (Finite 50) (Finite 50) (Finite 50),
       LatencyRow 9 64003 (Finite 50) (Finite 50) (Finite 50),
       LatencyRow 10 128003 (Finite 50) (Finite 50) (Finite 50),
       LatencyRow 11 256003 (Finite 50) (Finite 50) (Finite 50),
       LatencyRow 12 512003 (Finite 50) (Finite 50) (Finite 50),
       LatencyRow 13 1000003 (Finite 50) (Finite 50) (Finite 50),
       LatencyRow 14 2000003 (Finite 50) (Finite 50) (Finite 50),
       LatencyRow 15 4000003 (Finite 50) (Finite 50) (Finite 50)])"
  by (simp add: substrate_defs pub_defs latency_defs value_defs result_defs report_def echoed_def)

lemma size_lists_agree: "PubTester_msgSizes = map int Tester_msgSizes"
  by (simp add: PubTester_msgSizes_def Tester_msgSizes_def)

lemma size_list_ascending: "sorted_wrt (<) Tester_msgSizes"
  by (simp add: Tester_msgSizes_def)

section \<open>main and the relay\<close>

text \<open>
  C2. In every run mode \<^verbatim>\<open>main\<close> only constructs the \<^verbatim>\<open>ReplyTester\<close> and never calls
  \<^verbatim>\<open>Start\<close> on it. Whatever the flags and the events, the relay object \<^verbatim>\<open>main\<close> ends
  with is absent or is the object as its constructor left it, with a node on which nothing
  was advertised or subscribed and with nothing printed; the state \<^verbatim>\<open>Start\<close> leaves is
  never that state, since its first step advertises a reply topic or reports that it could
  not. The relay-only process (\<^verbatim>\<open>-r\<close>, no \<^verbatim>\<open>-h\<close>) returns exactly when one of the
  events is the signal SIGINT or SIGTERM, which sets the global stop flag, and stays
  suspended otherwise; its publisher object advertises, subscribes and publishes nothing.
\<close>

theorem C2_main_never_starts_relay:
  "(snd (snd (main T fl evs)) = None \<or> snd (snd (main T fl evs)) = Some (Tester_ctor T)) \<and>
   (\<not> FLAGS_h fl \<and> (FLAGS_r fl \<or> \<not> FLAGS_p fl) \<longrightarrow>
      snd (snd (main T fl evs)) = Some (Tester_ctor T)) \<and>
   Tester.node (Tester_ctor T) = new_Node \<and> console (Tester_ctor T) = [] \<and>
   relay_state (ReplyTester_Start T (Tester_ctor T) evs') \<noteq> Tester_ctor T \<and>
   (FLAGS_r fl \<and> \<not> FLAGS_h fl \<longrightarrow>
      fst (main T fl evs) =
        (if Signal SIGINT \<in> set evs \<or> Signal SIGTERM \<in> set evs then Return0
         else NoReturn BlockedForever) \<and>
      advertised (node (fst (snd (main T fl evs)))) = [] \<and>
      subscriptions (node (fst (snd (main T fl evs)))) = [] \<and>
      published (node (fst (snd (main T fl evs)))) = [])"
proof -
  have a: "snd (snd (main T fl evs)) = None \<or> snd (snd (main T fl evs)) = Some (Tester_ctor T)"
    by (simp add: main_def Let_def split: sum.splits prod.splits)
  have b: "snd (snd (main T fl evs)) = Some (Tester_ctor T)"
    if "\<not> FLAGS_h fl" and "FLAGS_r fl \<or> \<not> FLAGS_p fl"
    using that by (auto simp: main_def Let_def split: sum.splits prod.splits)
  have c: "relay_state (ReplyTester_Start T (Tester_ctor T) evs') \<noteq> Tester_ctor T"
    using Start_leaves_a_trace [of T evs'] by (auto simp: Tester_ctor_fields new_Node_def)
  have d: "fst (main T fl evs) =
        (if Signal SIGINT \<in> set evs \<or> Signal SIGTERM \<in> set evs then Return0
         else NoReturn BlockedForever) \<and>
      advertised (node (fst (snd (main T fl evs)))) = [] \<and>
      subscriptions (node (fst (snd (main T fl evs)))) = [] \<and>
      published (node (fst (snd (main T fl evs)))) = []" if r: "FLAGS_r fl" and h: "\<not> FLAGS_h fl"
  proof -
    let ?g = "SetOutputFilename (FLAGS_o fl) (SetIterations (FLAGS_i fl) initial_globals)"
    have g: "\<not> gStop ?g" "advertised (node ?g) = []" "subscriptions (node ?g) = []" "published (node ?g) = []"
      by (simp_all add: SetOutputFilename_def SetIterations_def initial_globals_def new_Node_def)
    have m: "main T fl evs =
      (case wait gStop ?g evs of
         Inl gb \<Rightarrow> (NoReturn BlockedForever, gb, Some (Tester_ctor T))
       | Inr (g', evs') \<Rightarrow> (Return0, g', Some (Tester_ctor T)))"
      using r h by (simp add: main_def Let_def)
    from wait_gStop_blocks [of ?g evs] g(1) wait_node_requests [of gStop ?g evs] g(2-4)
    show ?thesis
      unfolding m by (cases "wait gStop ?g evs") (auto split: prod.splits)
  qed
  from a b c d show ?thesis
    by (simp add: Tester_ctor_fields)
qed

text \<open>The relay-only process with the interrupt signal as its second event returns.\<close>

theorem C2_relay_only_witness:
  "fst (main example_substrate
     \<lparr>FLAGS_h = False, FLAGS_t = False, FLAGS_l = True, FLAGS_r = True, FLAGS_p = False,
      FLAGS_i = 1000, FLAGS_o = []\<rparr>
     [Connect ''/benchmark/latency/request'', Signal SIGINT]) = Return0 \<and>
   published (node (fst (snd (main example_substrate
     \<lparr>FLAGS_h = False, FLAGS_t = False, FLAGS_l = True, FLAGS_r = True, FLAGS_p = False,
      FLAGS_i = 1000, FLAGS_o = []\<rparr>
     [Connect ''/benchmark/latency/request'', Signal SIGINT])))) = []"
  using C2_main_never_starts_relay [of example_substrate
     "\<lparr>FLAGS_h = False, FLAGS_t = False, FLAGS_l = True, FLAGS_r = True, FLAGS_p = False,
      FLAGS_i = 1000, FLAGS_o = []\<rparr>"
     "[Connect ''/benchmark/latency/request'', Signal SIGINT]" "[]"]
  by simp

section \<open>The row of a throughput class\<close>

text \<open>For every completed throughput size class (the wait for the replies ended without
  the global stop flag), all \<open>N\<close> replies have arrived, \<open>msgCount\<close> is \<open>N\<close>,
  \<open>totalBytes\<close> is \<open>N\<close> times \<open>dataSize\<close>, the serialised size of the message
  \<^verbatim>\<open>PrepMsg\<close> built, and the row reports \<open>totalBytes * 1e-6 / seconds\<close> and
  \<open>msgCount * 1e-3 / seconds\<close>, the seconds being the end time minus the start time in
  whole microseconds. The counters are 64-bit, and the product is theirs.\<close>

lemma Throughput_class_row:
  assumes run: "Throughput_class T testNum msgSize g evs = Inr (g', evs')"
    and completed: "\<not> gStop g'"
  shows "msgCount g' = sentMsgs g \<and>
         dataSize g' =
           of_nat (serialized_size T (unterminated T In_PubTester_PrepMsg (nat msgSize))) \<and>
         totalBytes g' = sentMsgs g * dataSize g' \<and>
         out g' = out g @
           [ThroughputRow testNum (dataSize g')
              (fdiv (to_double (sentMsgs g * dataSize g') * 0.000001)
                 (to_double (duration_us (timeEnd g') (now T (clockReads g))) * 0.000001))
              (fdiv (to_double (sentMsgs g) * 0.001)
                 (to_double (duration_us (timeEnd g') (now T (clockReads g))) * 0.000001))]"
proof -
  define g1 where "g1 = g\<lparr>totalBytes := 0, msgCount := 0\<rparr>"
  from run obtain g2 where prep: "PrepMsg T msgSize g1 = Inr g2"
    by (auto simp: Throughput_class_def g1_def Let_def split: sum.splits)
  define g4 where "g4 = publish_loop (unat (sentMsgs g2)) (g2\<lparr>clockReads := clockReads g2 + 1\<rparr>)"
  from run prep obtain g5 where w: "wait throughput_wake g4 evs = Inr (g5, evs')"
    and g': "g' = g5\<lparr>out := out g5 @ [throughput_row testNum (now T (clockReads g2)) g5]\<rparr>"
    by (auto simp: Throughput_class_def g1_def g4_def Let_def split: sum.splits)
  from prep have g2: "totalBytes g2 = 0" "msgCount g2 = 0" "sentMsgs g2 = sentMsgs g"
    "dataSize g2 = of_nat (serialized_size T (unterminated T In_PubTester_PrepMsg (nat msgSize)))"
    "out g2 = out g" "clockReads g2 = clockReads g"
    by (auto simp: PrepMsg_def g1_def Let_def split: option.splits if_splits)
  have inv4: "count_inv g4" and fix4: "sentMsgs g4 = sentMsgs g" "dataSize g4 = dataSize g2" "out g4 = out g"
    using g2 by (simp_all add: count_inv_def g4_def publish_loop_fixed)
  from wait_throughput_wake [OF w inv4]
  have inv5: "count_inv g5" and wake: "throughput_wake g5" and fix5: "sentMsgs g5 = sentMsgs g"
    "dataSize g5 = dataSize g2" "out g5 = out g"
    by (simp_all add: fix4)
  from completed g' have "\<not> gStop g5" by simp
  with wake inv5 have cnt: "msgCount g5 = sentMsgs g"
    by (auto simp: throughput_wake_def count_inv_def fix5)
  with inv5 have tot: "totalBytes g5 = sentMsgs g * dataSize g5"
    by (simp add: count_inv_def)
  show ?thesis
    using cnt tot fix5 g2 by (simp add: g' throughput_row_def Let_def)
qed


section \<open>A latency class interrupted by the stop signal\<close>






section \<open>The channels of the two roles\<close>

text \<open>The names \<^verbatim>\<open>ReplyTester::Start\<close> builds for the size at the head of its loop and
  the names \<^verbatim>\<open>PubTester::Init\<close> uses, when every advertisement and subscription
  succeeds.\<close>

lemma Start_for_channel_names:
  assumes adv: "\<And>tp. advertise_ok T tp" and sub: "\<And>tp. subscribe_ok T tp"
  shows "advertised (Tester.node (relay_state (Start_for T (S # rest) s evs))) =
       advertised (Tester.node s) @ [throughputTopicReply S, latencyTopicReply S] \<and>
     map fst (subscriptions (Tester.node (relay_state (Start_for T (S # rest) s evs)))) =
       map fst (subscriptions (Tester.node s)) @ [throughputTopicRequest S, latencyTopicRequest S]"
  by (simp add: adv sub Advertise_def Subscribe_def relay_state_def Let_def
      Start_wait_loop_advertised Start_wait_loop_subscriptions)

lemma Init_channel_names:
  assumes adv: "\<And>tp. advertise_ok T tp" and sub: "\<And>tp. subscribe_ok T tp"
  shows "throughputPub (Init T g) = Some ''/benchmark/throughput/request'' \<and>
     latencyPub (Init T g) = Some ''/benchmark/latency/request'' \<and>
     map fst (subscriptions (node (Init T g))) =
       map fst (subscriptions (node g)) @
         [''/benchmark/throughput/reply'', ''/benchmark/latency/reply'']"
  by (simp add: adv sub Init_def Advertise_def Subscribe_def Let_def)

text \<open>\<^verbatim>\<open>Start\<close> on the sizes of the sweep never names a channel of a size other than
  256: the loop without exit keeps it in the first round of its loop over the sizes.\<close>

lemma Start_names_only_first_size:
  "set (advertised (Tester.node (relay_state (ReplyTester_Start T (Tester_ctor T) evs)))) \<subseteq>
     {throughputTopicReply 256, latencyTopicReply 256} \<and>
   fst ` set (subscriptions (Tester.node (relay_state (ReplyTester_Start T (Tester_ctor T) evs)))) \<subseteq>
     {throughputTopicRequest 256, latencyTopicRequest 256}"
  by (simp add: ReplyTester_Start_def Tester_ctor_fields Tester_msgSizes_def relay_state_def
      Advertise_def Subscribe_def relay_error_def Let_def Start_wait_loop_advertised
      Start_wait_loop_subscriptions new_Node_def)

text \<open>
  C9. For every size the four channels are namespaced by the size, no channel is shared
  across sizes, and the measurement role publishes its requests on the size-qualified
  channels the relay subscribes to. \<^verbatim>\<open>ReplyTester::Start\<close> builds size-qualified names,
  but \<^verbatim>\<open>PubTester::Init\<close> advertises and subscribes the four names without a size: the
  request for size 256 is published on \<^verbatim>\<open>/benchmark/latency/request\<close>, the relay is
  subscribed to \<^verbatim>\<open>/benchmark/throughput/256request\<close> and
  \<^verbatim>\<open>/benchmark/latency/256request\<close>, and the driver listens on
  \<^verbatim>\<open>/benchmark/latency/reply\<close> where the relay advertises
  \<^verbatim>\<open>/benchmark/latency/256reply\<close>.
\<close>

theorem C9_driver_channel_not_size_qualified:
  "map fst (published (node (final_globals (Latency example_substrate
      (SetIterations 1 (Init example_substrate initial_globals))
      [Connect ''/benchmark/latency/request''])))) = [''/benchmark/latency/request''] \<and>
   map fst (subscriptions (Tester.node (relay_state (ReplyTester_Start example_substrate
      (Tester_ctor example_substrate) [])))) =
     [''/benchmark/throughput/256request'', ''/benchmark/latency/256request''] \<and>
   ''/benchmark/latency/request'' \<notin>
     set [''/benchmark/throughput/256request'', ''/benchmark/latency/256request''] \<and>
   map fst (subscriptions (node (Init example_substrate initial_globals))) =
     [''/benchmark/throughput/reply'', ''/benchmark/latency/reply''] \<and>
   advertised (Tester.node (relay_state (ReplyTester_Start example_substrate
      (Tester_ctor example_substrate) []))) =
     [''/benchmark/throughput/256reply'', ''/benchmark/latency/256reply'']"
  by (simp add: substrate_defs pub_defs latency_defs value_defs result_defs relay_defs
      Tester_ctor_fields Let_def)

end
